theory Spec2Isabelle
  imports Main
begin

section \<open>JSON values\<close>

text \<open>
  Token payloads and the text kept in the browser's localStorage are JSON. A JSON object
  is an association list, in the order in which the keys were written.
\<close>

datatype json = JNull | JString string | JNumber nat | JObject "(string \<times> json) list"

section \<open>Signed tokens: backend/src/utils/jwt.ts, as given in docs/08\_SECURITY.md\<close>

text \<open>
  The configuration holds the two signing secrets the module reads,
  \<^verbatim>\<open>config.JWT_SECRET\<close> and \<^verbatim>\<open>config.JWT_REFRESH_SECRET\<close>.
  Throughout, a parameter that shares its name with a field of a record of the frontend
  (\<open>email\<close>, \<open>name\<close>, \<open>refreshToken\<close>) is written with a prime.
\<close>

record config =
  JWT_SECRET :: string
  JWT_REFRESH_SECRET :: string

text \<open>
  The \<^verbatim>\<open>expiresIn\<close> option is a time span written \<^verbatim>\<open>'24h'\<close> or \<^verbatim>\<open>'30d'\<close>;
  \<open>ms\<close> gives its length in milliseconds and \<open>timespan\<close> the expiry, in seconds, of a
  token issued at \<open>iat\<close>.
\<close>

datatype duration = Seconds nat | Minutes nat | Hours nat | Days nat

fun ms :: "duration \<Rightarrow> nat" where
  "ms (Seconds n) = n * 1000"
| "ms (Minutes n) = n * 60 * 1000"
| "ms (Hours n) = n * 60 * 60 * 1000"
| "ms (Days n) = n * 24 * 60 * 60 * 1000"

definition timespan :: "duration \<Rightarrow> nat \<Rightarrow> nat" where
  "timespan time iat = iat + ms time div 1000"

text \<open>
  A presented token is a string. Either it does not split into the three segments of a
  JSON web token, or it carries an algorithm name (the header), a payload and a
  signature. The signing primitive is a parameter \<open>mac\<close>: \<open>mac alg secret payload\<close> is the
  signature that algorithm \<open>alg\<close> computes under \<open>secret\<close> over the encoded header and
  payload. The clock is the parameter \<open>now\<close>, in seconds.
\<close>

datatype 'sg token = Malformed string | Jwt string "(string \<times> json) list" 'sg

datatype jwt_error = JsonWebTokenError string | NotBeforeError | TokenExpiredError

datatype error = Error string

definition jwt_sign ::
  "(string \<Rightarrow> string \<Rightarrow> (string \<times> json) list \<Rightarrow> 'sg) \<Rightarrow> (string \<times> json) list \<Rightarrow> string \<Rightarrow>
   duration \<Rightarrow> string \<Rightarrow> nat \<Rightarrow> 'sg token" where
  "jwt_sign mac payload secret expiresIn algorithm now =
     (let iat = now;
          claims = payload @ [(''iat'', JNumber iat), (''exp'', JNumber (timespan expiresIn iat))]
      in Jwt algorithm claims (mac algorithm secret claims))"

fun jwt_decode :: "'sg token \<Rightarrow> (string \<times> json) list option" where
  "jwt_decode (Malformed s) = None"
| "jwt_decode (Jwt alg claims sg) = Some claims"

definition check_nbf :: "(string \<times> json) list \<Rightarrow> nat \<Rightarrow> jwt_error option" where
  "check_nbf claims now =
     (case map_of claims ''nbf'' of
        None \<Rightarrow> None
      | Some (JNumber nbf) \<Rightarrow> if nbf > now then Some NotBeforeError else None
      | Some _ \<Rightarrow> Some (JsonWebTokenError ''invalid nbf value''))"

definition check_exp :: "(string \<times> json) list \<Rightarrow> nat \<Rightarrow> jwt_error option" where
  "check_exp claims now =
     (case map_of claims ''exp'' of
        None \<Rightarrow> None
      | Some (JNumber exp) \<Rightarrow> if now \<ge> exp then Some TokenExpiredError else None
      | Some _ \<Rightarrow> Some (JsonWebTokenError ''invalid exp value''))"

fun jwt_verify ::
  "(string \<Rightarrow> string \<Rightarrow> (string \<times> json) list \<Rightarrow> 'sg) \<Rightarrow> 'sg token \<Rightarrow> string \<Rightarrow> nat \<Rightarrow>
   jwt_error + (string \<times> json) list" where
  "jwt_verify mac (Malformed s) secret now = Inl (JsonWebTokenError ''jwt malformed'')"
| "jwt_verify mac (Jwt alg claims sg) secret now =
     (if alg \<notin> set [''HS256'', ''HS384'', ''HS512''] then Inl (JsonWebTokenError ''invalid algorithm'')
      else if sg \<noteq> mac alg secret claims then Inl (JsonWebTokenError ''invalid signature'')
      else case check_nbf claims now of
        Some e \<Rightarrow> Inl e
      | None \<Rightarrow> (case check_exp claims now of Some e \<Rightarrow> Inl e | None \<Rightarrow> Inr claims))"

definition generateAccessToken ::
  "(string \<Rightarrow> string \<Rightarrow> (string \<times> json) list \<Rightarrow> 'sg) \<Rightarrow> config \<Rightarrow> nat \<Rightarrow> string \<Rightarrow> string \<Rightarrow> 'sg token" where
  "generateAccessToken mac cfg now userId email' =
     jwt_sign mac
       [(''sub'', JString userId), (''email'', JString email'), (''type'', JString ''access'')]
       (JWT_SECRET cfg) (Hours 24) ''HS256'' now"


definition verifyToken ::
  "(string \<Rightarrow> string \<Rightarrow> (string \<times> json) list \<Rightarrow> 'sg) \<Rightarrow> config \<Rightarrow> nat \<Rightarrow> 'sg token \<Rightarrow>
   error + (string \<times> json) list" where
  "verifyToken mac cfg now token =
     (case jwt_verify mac token (JWT_SECRET cfg) now of
        Inr claims \<Rightarrow> Inr claims
      | Inl e \<Rightarrow> Inl (Error ''Invalid token''))"

text \<open>Reading one claim of a token, and the lifetime \<open>exp - iat\<close> its payload states.\<close>

definition token_claim :: "string \<Rightarrow> 'sg token \<Rightarrow> json option" where
  "token_claim key token = (case jwt_decode token of None \<Rightarrow> None | Some claims \<Rightarrow> map_of claims key)"

definition token_lifetime :: "'sg token \<Rightarrow> nat option" where
  "token_lifetime token =
     (case (token_claim ''exp'' token, token_claim ''iat'' token) of
        (Some (JNumber exp), Some (JNumber iat)) \<Rightarrow> Some (exp - iat)
      | _ \<Rightarrow> None)"

text \<open>
  A signing primitive and a configuration to run the definitions on: the signature is
  the triple it was computed from, so two signatures agree only when algorithm, secret
  and payload do.
\<close>

definition example_mac :: "string \<Rightarrow> string \<Rightarrow> (string \<times> json) list \<Rightarrow> string \<times> string \<times> (string \<times> json) list" where
  "example_mac alg secret claims = (alg, secret, claims)"

definition example_config :: config where
  "example_config = \<lparr>JWT_SECRET = ''access-secret'', JWT_REFRESH_SECRET = ''refresh-secret''\<rparr>"








section \<open>Password hashing: hashPassword and verifyPassword, as given in docs/08\_SECURITY.md\<close>








section \<open>The frontend's HTTP client: frontend/src/services/api.ts\<close>

definition AUTH_STORAGE_KEY :: string where
  "AUTH_STORAGE_KEY = ''webide.auth''"

text \<open>
  localStorage maps a key to a text; the text under a key is modelled by the JSON value
  it denotes.
\<close>

type_synonym storage = "string \<rightharpoonup> json"

definition getStoredToken :: "storage \<Rightarrow> string option" where
  "getStoredToken ls =
     (case ls AUTH_STORAGE_KEY of
        None \<Rightarrow> None
      | Some (JObject parsed) \<Rightarrow>
          (case map_of parsed ''accessToken'' of Some (JString t) \<Rightarrow> Some t | _ \<Rightarrow> None)
      | Some _ \<Rightarrow> None)"

record request =
  method' :: string
  url :: string
  headers :: "(string \<times> string) list"
  data :: "(string \<times> string) list option"

text \<open>
  A request fails with the status of the error response (or without one, when no response
  arrived), or succeeds with a body. The services read a body as
  \<^verbatim>\<open>response.data.data ?? response.data\<close>: the result is either inside a
  \<^verbatim>\<open>data\<close> envelope or the body itself. The server is a function from requests to
  replies.
\<close>

datatype http_error = HttpError nat | NetworkError

datatype 'a body = Enveloped 'a | Plain 'a

type_synonym 'a server = "request \<Rightarrow> http_error + 'a body"

fun unwrap :: "'a body \<Rightarrow> 'a" where
  "unwrap (Enveloped x) = x"
| "unwrap (Plain x) = x"

definition interceptor :: "storage \<Rightarrow> request \<Rightarrow> request" where
  "interceptor ls config =
     (case getStoredToken ls of
        None \<Rightarrow> config
      | Some token \<Rightarrow>
          if token \<noteq> []
          then config\<lparr>headers := headers config @ [(''Authorization'', ''Bearer '' @ token)]\<rparr>
          else config)"

definition api_post :: "storage \<Rightarrow> string \<Rightarrow> (string \<times> string) list option \<Rightarrow> request" where
  "api_post ls path payload =
     interceptor ls
       \<lparr>method' = ''POST'', url = path, headers = [(''Content-Type'', ''application/json'')],
        data = payload\<rparr>"

definition api_get :: "storage \<Rightarrow> string \<Rightarrow> request" where
  "api_get ls path =
     interceptor ls
       \<lparr>method' = ''GET'', url = path, headers = [(''Content-Type'', ''application/json'')],
        data = None\<rparr>"

section \<open>The auth service: frontend/src/services/auth.ts\<close>

record AuthUser =
  id' :: string
  email :: string
  name :: "string option"

record AuthTokens =
  accessToken :: string
  refreshToken :: "string option"
  expiresIn :: "nat option"

record AuthResponse =
  user :: AuthUser
  accessToken :: string
  refreshToken :: "string option"
  expiresIn :: "nat option"

record VerifyResponse =
  valid :: bool
  user :: "AuthUser option"

definition authService_login ::
  "AuthResponse server \<Rightarrow> storage \<Rightarrow> string \<Rightarrow> string \<Rightarrow> http_error + AuthResponse" where
  "authService_login srv ls email' password =
     (case srv (api_post ls ''/auth/login'' (Some [(''email'', email'), (''password'', password)])) of
        Inl e \<Rightarrow> Inl e
      | Inr response \<Rightarrow> Inr (unwrap response))"

definition authService_register ::
  "AuthUser server \<Rightarrow> storage \<Rightarrow> string \<Rightarrow> string \<Rightarrow> string \<Rightarrow> http_error + AuthUser" where
  "authService_register srv ls name' email' password =
     (case srv (api_post ls ''/auth/register''
                  (Some [(''name'', name'), (''email'', email'), (''password'', password)])) of
        Inl e \<Rightarrow> Inl e
      | Inr response \<Rightarrow> Inr (unwrap response))"

definition authService_verify :: "VerifyResponse server \<Rightarrow> storage \<Rightarrow> http_error + VerifyResponse" where
  "authService_verify srv ls =
     (case srv (api_get ls ''/auth/verify'') of
        Inl e \<Rightarrow> Inl e
      | Inr response \<Rightarrow> Inr (unwrap response))"

definition authService_refresh ::
  "AuthTokens server \<Rightarrow> storage \<Rightarrow> string \<Rightarrow> http_error + AuthTokens" where
  "authService_refresh srv ls refreshToken' =
     (case srv (api_post ls ''/auth/refresh'' (Some [(''refreshToken'', refreshToken')])) of
        Inl e \<Rightarrow> Inl e
      | Inr response \<Rightarrow> Inr (unwrap response))"

definition authService_logout :: "unit server \<Rightarrow> storage \<Rightarrow> http_error + unit" where
  "authService_logout srv ls =
     (case srv (api_post ls ''/auth/logout'' None) of
        Inl e \<Rightarrow> Inl e
      | Inr response \<Rightarrow> Inr ())"

section \<open>The auth provider: frontend/src/context/AuthContext.tsx\<close>

text \<open>
  The provider holds \<open>user\<close>, \<open>accessToken\<close> and \<open>isLoading\<close>; the browser holds
  localStorage beside them. Every operation takes the server it talks to and the browser
  state and returns the outcome of its promise (\<open>Inl\<close> when it rejects) with the new state.
\<close>

record AuthState =
  user :: "AuthUser option"
  accessToken :: "string option"
  isLoading :: bool

record browser = AuthState +
  localStorage :: storage

definition stringify_user :: "AuthUser \<Rightarrow> json" where
  "stringify_user u =
     JObject ([(''id'', JString (id' u)), (''email'', JString (email u))] @
              (case name u of None \<Rightarrow> [] | Some n \<Rightarrow> [(''name'', JString n)]))"

definition stringify_state :: "AuthUser option \<Rightarrow> string option \<Rightarrow> json" where
  "stringify_state user' accessToken' =
     JObject [(''user'', case user' of None \<Rightarrow> JNull | Some u \<Rightarrow> stringify_user u),
              (''accessToken'', case accessToken' of None \<Rightarrow> JNull | Some t \<Rightarrow> JString t)]"

definition persistAuth :: "AuthUser option \<Rightarrow> string option \<Rightarrow> storage \<Rightarrow> storage" where
  "persistAuth user' accessToken' ls = ls(AUTH_STORAGE_KEY \<mapsto> stringify_state user' accessToken')"

definition refreshSession :: "VerifyResponse server \<Rightarrow> browser \<Rightarrow> (http_error + unit) \<times> browser" where
  "refreshSession srv b =
     (case accessToken b of
        None \<Rightarrow> (Inr (), b)
      | Some t \<Rightarrow>
          if t = [] then (Inr (), b)
          else
            (let b1 = b\<lparr>isLoading := True\<rparr> in
             case authService_verify srv (localStorage b1) of
               Inl e \<Rightarrow> (Inl e, b1\<lparr>isLoading := False\<rparr>)
             | Inr response \<Rightarrow>
                 (case (valid response, VerifyResponse.user response) of
                    (True, Some u) \<Rightarrow>
                      (Inr (), b1\<lparr>user := Some u,
                                  localStorage := persistAuth (Some u) (Some t) (localStorage b1),
                                  isLoading := False\<rparr>)
                  | _ \<Rightarrow> (Inr (), b1\<lparr>isLoading := False\<rparr>))))"

definition login :: "AuthResponse server \<Rightarrow> string \<Rightarrow> string \<Rightarrow> browser \<Rightarrow> (http_error + unit) \<times> browser" where
  "login srv email' password b =
     (let b1 = b\<lparr>isLoading := True\<rparr> in
      case authService_login srv (localStorage b1) email' password of
        Inl e \<Rightarrow> (Inl e, b1\<lparr>isLoading := False\<rparr>)
      | Inr d \<Rightarrow>
          (Inr (), b1\<lparr>user := Some (AuthResponse.user d),
                      accessToken := Some (AuthResponse.accessToken d),
                      localStorage := persistAuth (Some (AuthResponse.user d))
                                        (Some (AuthResponse.accessToken d)) (localStorage b1),
                      isLoading := False\<rparr>))"

definition register ::
  "AuthUser server \<Rightarrow> AuthResponse server \<Rightarrow> string \<Rightarrow> string \<Rightarrow> string \<Rightarrow> browser \<Rightarrow>
   (http_error + unit) \<times> browser" where
  "register srv_register srv_login name' email' password b =
     (let b1 = b\<lparr>isLoading := True\<rparr> in
      case authService_register srv_register (localStorage b1) name' email' password of
        Inl e \<Rightarrow> (Inl e, b1\<lparr>isLoading := False\<rparr>)
      | Inr created \<Rightarrow>
          (case authService_login srv_login (localStorage b1) email' password of
             Inl e \<Rightarrow> (Inl e, b1\<lparr>isLoading := False\<rparr>)
           | Inr d \<Rightarrow>
               (Inr (), b1\<lparr>user := Some (AuthResponse.user d),
                           accessToken := Some (AuthResponse.accessToken d),
                           localStorage := persistAuth (Some (AuthResponse.user d))
                                             (Some (AuthResponse.accessToken d)) (localStorage b1),
                           isLoading := False\<rparr>)))"

definition logout :: "unit server \<Rightarrow> browser \<Rightarrow> (http_error + unit) \<times> browser" where
  "logout srv b =
     (let b1 = b\<lparr>isLoading := True\<rparr>;
          outcome = authService_logout srv (localStorage b1)
      in (outcome, b1\<lparr>user := None, accessToken := None,
                       localStorage := (localStorage b1)(AUTH_STORAGE_KEY := None),
                       isLoading := False\<rparr>))"

text \<open>A run of the provider: the four operations, each with the server's behaviour.\<close>

datatype event =
    Login "AuthResponse server" string string
  | Register "AuthUser server" "AuthResponse server" string string string
  | RefreshSession "VerifyResponse server"
  | Logout "unit server"

fun step :: "event \<Rightarrow> browser \<Rightarrow> browser" where
  "step (Login srv email' password) b = snd (login srv email' password b)"
| "step (Register srv_register srv_login name' email' password) b =
     snd (register srv_register srv_login name' email' password b)"
| "step (RefreshSession srv) b = snd (refreshSession srv b)"
| "step (Logout srv) b = snd (logout srv b)"

fun run :: "event list \<Rightarrow> browser \<Rightarrow> browser" where
  "run [] b = b"
| "run (ev # evs) b = run evs (step ev b)"

text \<open>
  What the entry under \<open>AUTH_STORAGE_KEY\<close> may hold: nothing, or an object whose keys are
  among \<open>user\<close> and \<open>accessToken\<close>; \<open>mentions k v\<close> says that \<open>k\<close> is a key somewhere
  inside \<open>v\<close>.
\<close>

fun mentions :: "string \<Rightarrow> json \<Rightarrow> bool" where
  "mentions k (JObject members) = list_ex (\<lambda>kv. fst kv = k \<or> mentions k (snd kv)) members"
| "mentions k v = False"

definition only_user_and_token :: "storage \<Rightarrow> bool" where
  "only_user_and_token ls =
     (case ls AUTH_STORAGE_KEY of
        None \<Rightarrow> True
      | Some (JObject members) \<Rightarrow>
          list_all (\<lambda>kv. fst kv \<in> set [''user'', ''accessToken'']) members \<and>
          \<not> mentions ''refreshToken'' (JObject members)
      | Some _ \<Rightarrow> False)"

section \<open>Routing and pages: components/ProtectedRoute.tsx, pages/LoginPage.tsx, pages/RegisterPage.tsx\<close>

datatype view = Loading | Navigate string | Children

definition ProtectedRoute :: "browser \<Rightarrow> view" where
  "ProtectedRoute b =
     (if isLoading b then Loading
      else if user b = None then Navigate ''/login''
      else Children)"

record page =
  error :: "string option"
  location :: string

definition LoginPage_handleSubmit ::
  "AuthResponse server \<Rightarrow> string \<Rightarrow> string \<Rightarrow> page \<times> browser \<Rightarrow> page \<times> browser" where
  "LoginPage_handleSubmit srv email' password pb =
     (let pg = (fst pb)\<lparr>error := None\<rparr> in
      case login srv email' password (snd pb) of
        (Inr u, b') \<Rightarrow> (pg\<lparr>location := ''/''\<rparr>, b')
      | (Inl err, b') \<Rightarrow>
          (pg\<lparr>error := Some ''Unable to sign in. Check your credentials and try again.''\<rparr>, b'))"

definition RegisterPage_handleSubmit ::
  "AuthUser server \<Rightarrow> AuthResponse server \<Rightarrow> string \<Rightarrow> string \<Rightarrow> string \<Rightarrow> string \<Rightarrow>
   page \<times> browser \<Rightarrow> page \<times> browser" where
  "RegisterPage_handleSubmit srv_register srv_login name' email' password confirmPassword pb =
     (let pg = (fst pb)\<lparr>error := None\<rparr> in
      if password \<noteq> confirmPassword then (pg\<lparr>error := Some ''Passwords do not match.''\<rparr>, snd pb)
      else
        case register srv_register srv_login name' email' password (snd pb) of
          (Inr u, b') \<Rightarrow> (pg\<lparr>location := ''/''\<rparr>, b')
        | (Inl err, b') \<Rightarrow>
            (pg\<lparr>error := Some ''Unable to create account. Please try again.''\<rparr>, b'))"

text \<open>Users, replies and a browser state to run the definitions on.\<close>

definition alice :: AuthUser where
  "alice = \<lparr>id' = ''user-1'', email = ''alice@example.com'', name = Some ''Alice''\<rparr>"

definition alice_session :: AuthResponse where
  "alice_session =
     \<lparr>AuthResponse.user = alice, AuthResponse.accessToken = ''access-1'',
      AuthResponse.refreshToken = Some ''refresh-1'', AuthResponse.expiresIn = Some 86400\<rparr>"

definition signed_out :: browser where
  "signed_out = \<lparr>user = None, accessToken = None, isLoading = False, localStorage = Map.empty\<rparr>"

definition signed_in :: browser where
  "signed_in =
     \<lparr>user = Some alice, accessToken = Some ''access-1'', isLoading = False,
      localStorage = persistAuth (Some alice) (Some ''access-1'') Map.empty\<rparr>"

definition replies :: "'a \<Rightarrow> 'a server" where
  "replies x req = Inr (Enveloped x)"

definition rejects :: "http_error \<Rightarrow> 'a server" where
  "rejects e req = Inl e"

text \<open>A register endpoint that takes a body only when it has a \<open>username\<close> field.\<close>

definition wants_username :: "AuthUser server" where
  "wants_username req =
     (case data req of
        None \<Rightarrow> Inl (HttpError 400)
      | Some members \<Rightarrow>
          if ''username'' \<in> set (map fst members) then Inr (Enveloped alice)
          else Inl (HttpError 400))"

section \<open>Refresh token store and rotation\<close>

text \<open>
  The backend's refresh token table and its rotation are not among the sources, which
  hold the frontend caller \<^verbatim>\<open>authService.refresh\<close> only. The definitions of this
  section follow sections 3, 4.4, 4.5 and 7 of the specification. Time is in seconds;
  the hash applied to a raw token is the parameter \<open>H\<close>; the random raw value of a new
  token is an argument.
\<close>

text \<open>Modelled from the spec: the error taxonomy of section 7 (the backend's error type is missing).\<close>

datatype auth_error = ValidationError | Unauthorized | Forbidden | Conflict | NotFound | InternalError

text \<open>
  Modelled from the spec: the Refresh Token Record of section 3 (the backend's table is
  missing): id, owning user, hash of the token value, expiry, optional revocation
  timestamp, creation timestamp.
\<close>

record refresh_record =
  record_id :: nat
  user_id :: string
  token_hash :: string
  expires_at :: nat
  revoked_at :: "nat option"
  created_at :: nat

text \<open>
  Modelled from the spec: "a record is usable if and only if
  \<^verbatim>\<open>revoked_at IS NULL AND expires_at > now()\<close>" (section 3; the backend's query is
  missing).
\<close>

definition usable :: "nat \<Rightarrow> refresh_record \<Rightarrow> bool" where
  "usable now r = (revoked_at r = None \<and> expires_at r > now)"

text \<open>
  Modelled from the spec: the invariant "the hash column is unique" of section 3 (the
  backend's schema is missing).
\<close>

definition unique_hashes :: "refresh_record list \<Rightarrow> bool" where
  "unique_hashes store = distinct (map token_hash store)"

text \<open>
  Modelled from the spec: \<^verbatim>\<open>findActive(tokenHash) -> record | none\<close> of section 4.4
  (the backend's store is missing).
\<close>

definition findActive :: "nat \<Rightarrow> string \<Rightarrow> refresh_record list \<Rightarrow> refresh_record option" where
  "findActive now tokenHash store = find (\<lambda>r. token_hash r = tokenHash \<and> usable now r) store"

text \<open>
  Modelled from the spec: \<^verbatim>\<open>persist(userId, tokenHash, expiresAt) -> recordId\<close> of
  section 4.4 (the backend's store is missing); the id is one no record of the table has.
\<close>

definition persist ::
  "nat \<Rightarrow> string \<Rightarrow> string \<Rightarrow> nat \<Rightarrow> refresh_record list \<Rightarrow> nat \<times> refresh_record list" where
  "persist now userId tokenHash expiresAt store =
     (let recordId = Suc (fold max (map record_id store) 0) in
      (recordId,
       store @ [\<lparr>record_id = recordId, user_id = userId, token_hash = tokenHash,
                 expires_at = expiresAt, revoked_at = None, created_at = now\<rparr>]))"

text \<open>
  Modelled from the spec: \<^verbatim>\<open>revoke(recordId) -> void\<close> of section 4.4 (the backend's
  store is missing): the revocation timestamp is set and the row retained; "revoking an
  already-revoked record is a no-op" (section 4.5).
\<close>

definition revoke :: "nat \<Rightarrow> nat \<Rightarrow> refresh_record list \<Rightarrow> refresh_record list" where
  "revoke now recordId store =
     map (\<lambda>r. if record_id r = recordId \<and> revoked_at r = None then r\<lparr>revoked_at := Some now\<rparr> else r)
       store"

text \<open>
  Modelled from the spec: \<^verbatim>\<open>rotate(oldTokenHash) -> (newRawToken, newRecordId)\<close> of
  section 4.4 (the backend's rotation is missing): it "revokes the old record and issues
  + persists a new one bound to the same user; fails with Unauthorized if the old record
  is not found or not active". The rotation is one transition of the table, as the single
  transaction the specification asks for: the tables a reader can see are the one before
  it and the one after it.
\<close>

definition rotate ::
  "(string \<Rightarrow> string) \<Rightarrow> nat \<Rightarrow> nat \<Rightarrow> string \<Rightarrow> string \<Rightarrow> refresh_record list \<Rightarrow>
   auth_error + (string \<times> nat) \<times> refresh_record list" where
  "rotate H ttl now newRawToken oldTokenHash store =
     (case findActive now oldTokenHash store of
        None \<Rightarrow> Inl Unauthorized
      | Some old \<Rightarrow>
          (let revoked = revoke now (record_id old) store;
               inserted = persist now (user_id old) (H newRawToken) (now + ttl) revoked
           in Inr ((newRawToken, fst inserted), snd inserted)))"

text \<open>
  Modelled from the spec: \<^verbatim>\<open>issueRefreshToken(userId) -> (raw_token_string, token_id)\<close>
  of section 4.2 with the persistence that login adds (section 4.5; the backend's login is
  missing): the raw value is hashed before it is persisted.
\<close>

definition issueRefreshToken ::
  "(string \<Rightarrow> string) \<Rightarrow> nat \<Rightarrow> nat \<Rightarrow> string \<Rightarrow> string \<Rightarrow> refresh_record list \<Rightarrow>
   (string \<times> nat) \<times> refresh_record list" where
  "issueRefreshToken H ttl now rawToken userId store =
     (let inserted = persist now userId (H rawToken) (now + ttl) store
      in ((rawToken, fst inserted), snd inserted))"

text \<open>
  Modelled from the spec: the Refresh operation of section 4.5 (the backend's handler is
  missing): the presented token must decode with a valid signature (the parameter
  \<open>signature_valid\<close>) and its persisted record must be active; then the token is rotated.
  Any failure is Unauthorized.
\<close>

definition refresh ::
  "(string \<Rightarrow> bool) \<Rightarrow> (string \<Rightarrow> string) \<Rightarrow> nat \<Rightarrow> nat \<Rightarrow> string \<Rightarrow> string \<Rightarrow> refresh_record list \<Rightarrow>
   auth_error + (string \<times> nat) \<times> refresh_record list" where
  "refresh signature_valid H ttl now newRawToken rawToken store =
     (if \<not> signature_valid rawToken then Inl Unauthorized
      else rotate H ttl now newRawToken (H rawToken) store)"

text \<open>
  A hash is spent in a table when every record that carries it has been revoked: no
  lookup of it, at any time, finds an active record.
\<close>

definition spent :: "string \<Rightarrow> refresh_record list \<Rightarrow> bool" where
  "spent h store = (\<forall>r \<in> set store. token_hash r = h \<longrightarrow> revoked_at r \<noteq> None)"

text \<open>
  A hash, a signature check and a table to run the definitions on: the hash of a value
  is the value with a prefix, every signature is taken as valid, and the table holds the
  one token issued to a user at login, for thirty days.
\<close>

definition example_hash :: "string \<Rightarrow> string" where
  "example_hash raw = ''sha256:'' @ raw"

definition any_signature :: "string \<Rightarrow> bool" where
  "any_signature raw = True"

definition example_store :: "refresh_record list" where
  "example_store = snd (issueRefreshToken example_hash 2592000 1700000000 ''raw-1'' ''user-1'' [])"

section \<open>Properties of the signed tokens\<close>

lemma jwt_sign_claims:
  "jwt_decode (jwt_sign mac payload secret expires algorithm now) =
     Some (payload @ [(''iat'', JNumber now), (''exp'', JNumber (timespan expires now))])"
  by (simp add: jwt_sign_def Let_def)

lemma verify_signed:
  "jwt_verify mac (jwt_sign mac payload secret expires ''HS256'' t) secret' now =
    (if mac ''HS256'' secret (payload @ [(''iat'', JNumber t), (''exp'', JNumber (timespan expires t))])
        \<noteq> mac ''HS256'' secret' (payload @ [(''iat'', JNumber t), (''exp'', JNumber (timespan expires t))])
     then Inl (JsonWebTokenError ''invalid signature'')
     else case check_nbf (payload @ [(''iat'', JNumber t), (''exp'', JNumber (timespan expires t))]) now of
        Some e \<Rightarrow> Inl e
      | None \<Rightarrow>
          (case check_exp (payload @ [(''iat'', JNumber t), (''exp'', JNumber (timespan expires t))]) now of
             Some e \<Rightarrow> Inl e
           | None \<Rightarrow> Inr (payload @ [(''iat'', JNumber t), (''exp'', JNumber (timespan expires t))])))"
  by (simp add: jwt_sign_def Let_def)

text \<open>
  C2, as amended: for every issued access token the payload states the issue time as
  \<open>iat\<close> and an expiry \<open>exp\<close> exactly 86400 seconds (24 hours) later; the lifetime is
  the constant \<^verbatim>\<open>'24h'\<close> of \<open>generateAccessToken\<close> and is read from no configuration.
\<close>

theorem access_token_lifetime_24h:
  "token_claim ''iat'' (generateAccessToken mac cfg now userId email') = Some (JNumber now) \<and>
   token_claim ''exp'' (generateAccessToken mac cfg now userId email') = Some (JNumber (now + 86400)) \<and>
   token_lifetime (generateAccessToken mac cfg now userId email') = Some 86400"
  by (simp add: token_lifetime_def token_claim_def generateAccessToken_def jwt_sign_claims timespan_def)

text \<open>
  C2 as stated fails: a token issued under the only lifetime the code has lives 86400
  seconds, which is not under one hour.
\<close>

theorem access_token_lifetime_counterexample:
  "token_lifetime (generateAccessToken example_mac example_config 1700000000 ''user-1'' ''alice@example.com'')
     = Some 86400
   \<and> \<not> (86400 < (60 * 60 :: nat))"
  by (simp add: token_lifetime_def token_claim_def generateAccessToken_def jwt_sign_claims timespan_def)

text \<open>
  C4, as amended: every access token's payload is, in this order, the subject (the user
  id), the email, the type \<open>access\<close>, the issue time and the expiry; it has no other
  member, so no username.
\<close>

theorem access_token_claims:
  "jwt_decode (generateAccessToken mac cfg now userId email') =
     Some [(''sub'', JString userId), (''email'', JString email'), (''type'', JString ''access''),
           (''iat'', JNumber now), (''exp'', JNumber (now + 86400))]"
  by (simp add: generateAccessToken_def jwt_sign_claims timespan_def)

text \<open>C4 as stated fails: the token of a user carries the subject and no username.\<close>

theorem access_token_username_counterexample:
  "token_claim ''sub'' (generateAccessToken example_mac example_config 1700000000 ''user-1'' ''alice@example.com'')
     = Some (JString ''user-1'')
   \<and> token_claim ''username'' (generateAccessToken example_mac example_config 1700000000 ''user-1'' ''alice@example.com'')
     = None"
  by (simp add: token_claim_def generateAccessToken_def jwt_sign_claims)







text \<open>
  The checks of the verifier that can fail: a string that is no token, a signature that
  is not the one the secret gives, an expiry that has passed. Each ends in the same error.
\<close>

lemma verifyToken_malformed:
  "verifyToken mac cfg now (Malformed s) = Inl (Error ''Invalid token'')"
  by (simp add: verifyToken_def)

lemma verifyToken_bad_signature:
  "sg \<noteq> mac alg (JWT_SECRET cfg) claims \<Longrightarrow>
   verifyToken mac cfg now (Jwt alg claims sg) = Inl (Error ''Invalid token'')"
  by (simp add: verifyToken_def)

lemma verifyToken_expired:
  "t + 86400 \<le> now \<Longrightarrow>
   jwt_verify mac (generateAccessToken mac cfg t userId email') (JWT_SECRET cfg) now = Inl TokenExpiredError \<and>
   verifyToken mac cfg now (generateAccessToken mac cfg t userId email') = Inl (Error ''Invalid token'')"
  by (simp add: verifyToken_def generateAccessToken_def verify_signed check_nbf_def check_exp_def
      timespan_def)

lemma verifyToken_live:
  "now < t + 86400 \<Longrightarrow>
   verifyToken mac cfg now (generateAccessToken mac cfg t userId email') =
     Inr [(''sub'', JString userId), (''email'', JString email'), (''type'', JString ''access''),
          (''iat'', JNumber t), (''exp'', JNumber (t + 86400))]"
  by (simp add: verifyToken_def generateAccessToken_def verify_signed check_nbf_def check_exp_def
      timespan_def)

text \<open>
  C7: for every presented token, \<open>verifyToken\<close> either returns the decoded claims (those
  the library's verification accepted) or fails with the one error
  \<^verbatim>\<open>Error('Invalid token')\<close>, whatever the library's reason for refusing the token was.
\<close>

theorem verifyToken_uniform:
  "(\<exists>claims. jwt_verify mac token (JWT_SECRET cfg) now = Inr claims \<and>
             verifyToken mac cfg now token = Inr claims)
   \<or> verifyToken mac cfg now token = Inl (Error ''Invalid token'')"
  by (cases "jwt_verify mac token (JWT_SECRET cfg) now") (simp_all add: verifyToken_def)

section \<open>Properties of password hashing\<close>










section \<open>Properties of the frontend\<close>

lemma interceptor_keeps:
  "method' (interceptor ls config) = method' config \<and> url (interceptor ls config) = url config \<and>
   data (interceptor ls config) = data config"
  by (simp add: interceptor_def split: option.split)

text \<open>
  C8, as amended: the register operation sends a POST to \<^verbatim>\<open>/auth/register\<close> whose body
  consists of the fields name, email and password, in this order; when the request
  fails it fails with the same error, and when it succeeds it returns the user of the
  reply, taken out of the \<^verbatim>\<open>data\<close> envelope when there is one.
\<close>

theorem register_sends_name_email_password:
  "\<exists>req. method' req = ''POST'' \<and> url req = ''/auth/register'' \<and>
     data req = Some [(''name'', name'), (''email'', email'), (''password'', password)] \<and>
     authService_register srv ls name' email' password =
       (case srv req of Inl e \<Rightarrow> Inl e | Inr response \<Rightarrow> Inr (unwrap response))"
  unfolding authService_register_def
  by (rule exI [of _ "api_post ls ''/auth/register''
        (Some [(''name'', name'), (''email'', email'), (''password'', password)])"])
     (simp add: api_post_def interceptor_keeps)

text \<open>
  C8 as stated fails: an endpoint that takes a body only when it has a username
  refuses the body that the register operation sends.
\<close>

theorem register_username_counterexample:
  "authService_register wants_username Map.empty ''Alice'' ''alice@example.com'' ''Str0ngP@ssw0rd!''
     = Inl (HttpError 400)"
  by (simp add: authService_register_def wants_username_def api_post_def interceptor_def
      getStoredToken_def)

lemma logout_state:
  "snd (logout srv b) = b\<lparr>user := None, accessToken := None,
      localStorage := (localStorage b)(AUTH_STORAGE_KEY := None), isLoading := False\<rparr>"
  by (simp add: logout_def Let_def)

text \<open>
  C10: whatever the server does with \<^verbatim>\<open>POST /auth/logout\<close>, answer or fail, logout
  ends with the user null, the access token null, the \<^verbatim>\<open>webide.auth\<close> entry removed
  from localStorage and the loading flag off; its own outcome is that of the request.
\<close>

theorem logout_clears_session:
  "user (snd (logout srv b)) = None \<and> accessToken (snd (logout srv b)) = None \<and>
   localStorage (snd (logout srv b)) AUTH_STORAGE_KEY = None \<and> \<not> isLoading (snd (logout srv b)) \<and>
   fst (logout srv b) = authService_logout srv (localStorage b)"
  by (simp add: logout_def Let_def)

lemma login_rejected: "login (rejects e) m p b = (Inl e, b\<lparr>isLoading := False\<rparr>)"
  by (simp add: login_def authService_login_def rejects_def Let_def)

lemma register_rejected: "register (rejects e) srv n m p b = (Inl e, b\<lparr>isLoading := False\<rparr>)"
  by (simp add: register_def authService_register_def rejects_def Let_def)

lemma register_login_rejected:
  "register (replies u) (rejects e) n m p b = (Inl e, b\<lparr>isLoading := False\<rparr>)"
  by (simp add: register_def authService_register_def authService_login_def rejects_def replies_def
      Let_def)

lemma refreshSession_rejected:
  "refreshSession (rejects e) b =
     (case accessToken b of
        None \<Rightarrow> (Inr (), b)
      | Some t \<Rightarrow> if t = [] then (Inr (), b) else (Inl e, b\<lparr>isLoading := False\<rparr>))"
  by (simp add: refreshSession_def authService_verify_def rejects_def Let_def split: option.split)

lemma refreshSession_rejected_session:
  "(snd (refreshSession (rejects e) b))\<lparr>isLoading := isLoading b\<rparr> = b"
  by (simp add: refreshSession_rejected split: option.split)

text \<open>
  C3, as amended: the frontend treats every failed request alike, whatever its status,
  401 included. A failed login or registration rejects with the error, leaves user,
  access token and localStorage as they were, and its page shows an inline message; a
  failed session check leaves them as they were too. The protected route sends the
  visitor to the login view exactly when nothing is loading and no user is set. Only
  logout clears the session, and it does so also when its request fails.
\<close>

theorem errors_keep_session:
  "login (rejects e) email' password b = (Inl e, b\<lparr>isLoading := False\<rparr>) \<and>
   register (rejects e) srv_login name' email' password b = (Inl e, b\<lparr>isLoading := False\<rparr>) \<and>
   register (replies created) (rejects e) name' email' password b = (Inl e, b\<lparr>isLoading := False\<rparr>) \<and>
   (snd (refreshSession (rejects e) b))\<lparr>isLoading := isLoading b\<rparr> = b \<and>
   LoginPage_handleSubmit (rejects e) email' password (pg, b) =
     (pg\<lparr>error := Some ''Unable to sign in. Check your credentials and try again.''\<rparr>,
      b\<lparr>isLoading := False\<rparr>) \<and>
   RegisterPage_handleSubmit (rejects e) srv_login name' email' password password (pg, b) =
     (pg\<lparr>error := Some ''Unable to create account. Please try again.''\<rparr>, b\<lparr>isLoading := False\<rparr>) \<and>
   (ProtectedRoute b = Navigate ''/login'' \<longleftrightarrow> \<not> isLoading b \<and> user b = None) \<and>
   user (snd (logout (rejects e) b)) = None \<and> accessToken (snd (logout (rejects e) b)) = None \<and>
   localStorage (snd (logout (rejects e) b)) AUTH_STORAGE_KEY = None"
  by (simp add: login_rejected register_rejected register_login_rejected
      refreshSession_rejected_session LoginPage_handleSubmit_def RegisterPage_handleSubmit_def
      ProtectedRoute_def logout_state)

text \<open>
  C3 as stated fails: a signed-in browser whose session check is answered with status
  401 keeps its user, its access token and its localStorage entry, and the protected
  route still shows its children.
\<close>

theorem unauthorized_keeps_session_counterexample:
  "fst (refreshSession (rejects (HttpError 401)) signed_in) = Inl (HttpError 401) \<and>
   user (snd (refreshSession (rejects (HttpError 401)) signed_in)) = Some alice \<and>
   accessToken (snd (refreshSession (rejects (HttpError 401)) signed_in)) = Some ''access-1'' \<and>
   localStorage (snd (refreshSession (rejects (HttpError 401)) signed_in)) AUTH_STORAGE_KEY =
     Some (stringify_state (Some alice) (Some ''access-1'')) \<and>
   ProtectedRoute (snd (refreshSession (rejects (HttpError 401)) signed_in)) = Children"
  by (simp add: refreshSession_rejected signed_in_def ProtectedRoute_def persistAuth_def)

lemma stringify_user_no_refreshToken: "\<not> mentions ''refreshToken'' (stringify_user u)"
  by (cases "name u") (simp_all add: stringify_user_def)

lemma stringify_state_no_refreshToken: "\<not> mentions ''refreshToken'' (stringify_state u t)"
proof -
  have "\<not> mentions ''refreshToken'' (case u of None \<Rightarrow> JNull | Some x \<Rightarrow> stringify_user x)"
    by (cases u) (simp_all add: stringify_user_no_refreshToken)
  moreover have "\<not> mentions ''refreshToken'' (case t of None \<Rightarrow> JNull | Some x \<Rightarrow> JString x)"
    by (cases t) simp_all
  ultimately show ?thesis
    by (simp add: stringify_state_def)
qed

lemma persistAuth_only: "only_user_and_token (persistAuth u t ls)"
  using stringify_state_no_refreshToken [of u t]
  by (simp add: only_user_and_token_def persistAuth_def stringify_state_def)

lemma removeItem_only: "only_user_and_token (ls(AUTH_STORAGE_KEY := None))"
  by (simp add: only_user_and_token_def)

lemma login_only:
  "only_user_and_token (localStorage b) \<Longrightarrow>
   only_user_and_token (localStorage (snd (login srv m p b)))"
  by (simp add: login_def Let_def persistAuth_only split: sum.split)

lemma register_only:
  "only_user_and_token (localStorage b) \<Longrightarrow>
   only_user_and_token (localStorage (snd (register sr sl n m p b)))"
  by (simp add: register_def Let_def persistAuth_only split: sum.split)

lemma refreshSession_only:
  "only_user_and_token (localStorage b) \<Longrightarrow>
   only_user_and_token (localStorage (snd (refreshSession srv b)))"
  by (simp add: refreshSession_def Let_def persistAuth_only split: sum.split option.split bool.split)

lemma logout_only: "only_user_and_token (localStorage (snd (logout srv b)))"
  by (simp add: logout_def Let_def removeItem_only)

lemma step_only:
  "only_user_and_token (localStorage b) \<Longrightarrow> only_user_and_token (localStorage (step ev b))"
  by (cases ev) (simp_all add: login_only register_only refreshSession_only logout_only)

lemma run_only:
  "only_user_and_token (localStorage b) \<Longrightarrow> only_user_and_token (localStorage (run evs b))"
  by (induction evs arbitrary: b) (simp_all add: step_only)

lemma login_replies:
  "login (replies d) m p b =
     (Inr (), b\<lparr>user := Some (AuthResponse.user d), accessToken := Some (AuthResponse.accessToken d),
                localStorage := persistAuth (Some (AuthResponse.user d))
                                  (Some (AuthResponse.accessToken d)) (localStorage b),
                isLoading := False\<rparr>)"
  by (simp add: login_def authService_login_def replies_def Let_def)

text \<open>
  C9: the frontend never persists the refresh token. When the \<^verbatim>\<open>webide.auth\<close> entry
  of localStorage is absent or an object with no key but \<open>user\<close> and \<open>accessToken\<close>
  and no \<open>refreshToken\<close> key inside, it is so again after any run of login, register,
  refreshSession and logout, whatever the server answers. A successful login gives the
  same state whatever refresh token the reply carries, and stores exactly the user and
  the access token of the reply.
\<close>

theorem refresh_token_never_stored:
  "(only_user_and_token (localStorage b) \<longrightarrow> only_user_and_token (localStorage (run evs b))) \<and>
   login (replies (d\<lparr>AuthResponse.refreshToken := rt\<rparr>)) email' password b
     = login (replies d) email' password b \<and>
   localStorage (snd (login (replies d) email' password b)) AUTH_STORAGE_KEY =
     Some (JObject [(''user'', stringify_user (AuthResponse.user d)),
                    (''accessToken'', JString (AuthResponse.accessToken d))])"
  by (simp add: run_only login_replies persistAuth_def stringify_state_def)

theorem refresh_token_never_stored_witness:
  "only_user_and_token (localStorage signed_out) \<and>
   only_user_and_token (localStorage (run
      [Login (replies alice_session) ''alice@example.com'' ''Str0ngP@ssw0rd!'',
       RefreshSession (replies \<lparr>valid = True, VerifyResponse.user = Some alice\<rparr>)] signed_out)) \<and>
   localStorage (run
      [Login (replies alice_session) ''alice@example.com'' ''Str0ngP@ssw0rd!'',
       RefreshSession (replies \<lparr>valid = True, VerifyResponse.user = Some alice\<rparr>)] signed_out)
      AUTH_STORAGE_KEY =
     Some (JObject [(''user'', JObject [(''id'', JString ''user-1''),
                                        (''email'', JString ''alice@example.com''),
                                        (''name'', JString ''Alice'')]),
                    (''accessToken'', JString ''access-1'')])"
proof -
  have h: "only_user_and_token (localStorage signed_out)"
    by (simp add: only_user_and_token_def signed_out_def)
  have v: "localStorage (run
      [Login (replies alice_session) ''alice@example.com'' ''Str0ngP@ssw0rd!'',
       RefreshSession (replies \<lparr>valid = True, VerifyResponse.user = Some alice\<rparr>)] signed_out)
      AUTH_STORAGE_KEY =
     Some (JObject [(''user'', JObject [(''id'', JString ''user-1''),
                                        (''email'', JString ''alice@example.com''),
                                        (''name'', JString ''Alice'')]),
                    (''accessToken'', JString ''access-1'')])"
    by (simp add: login_replies refreshSession_def authService_verify_def replies_def Let_def
        alice_session_def alice_def signed_out_def persistAuth_def stringify_state_def
        stringify_user_def)
  show ?thesis
    using h v refresh_token_never_stored [where b = signed_out and
        evs = "[Login (replies alice_session) ''alice@example.com'' ''Str0ngP@ssw0rd!'',
                RefreshSession (replies \<lparr>valid = True, VerifyResponse.user = Some alice\<rparr>)]"]
    by simp
qed

section \<open>Properties of the refresh token store\<close>

lemma find_append_None:
  "find P xs = None \<Longrightarrow> find P (xs @ ys) = find P ys"
  by (induction xs) (simp_all split: if_splits)

lemma findActive_None_iff:
  "findActive t h store = None \<longleftrightarrow> (\<forall>r \<in> set store. token_hash r = h \<longrightarrow> \<not> usable t r)"
  by (auto simp add: findActive_def find_None_iff)

lemma findActive_SomeD:
  "findActive t h store = Some r \<Longrightarrow> r \<in> set store \<and> token_hash r = h \<and> usable t r"
  by (auto simp add: findActive_def find_Some_iff)

lemma token_hash_revoke: "map token_hash (revoke now i store) = map token_hash store"
  by (simp add: revoke_def comp_def)

lemma record_id_revoke: "map record_id (revoke now i store) = map record_id store"
  by (simp add: revoke_def comp_def)

lemma revoke_old_spent:
  assumes uniq: "unique_hashes store" and old: "old \<in> set store" and act: "revoked_at old = None"
    and r: "r \<in> set (revoke now (record_id old) store)" and h: "token_hash r = token_hash old"
  shows "revoked_at r = Some now"
proof -
  from r obtain r0 where r0: "r0 \<in> set store"
    and eq: "r = (if record_id r0 = record_id old \<and> revoked_at r0 = None then r0\<lparr>revoked_at := Some now\<rparr> else r0)"
    by (auto simp add: revoke_def)
  have "token_hash r0 = token_hash old" using eq h by (simp split: if_splits)
  moreover have "inj_on token_hash (set store)"
    using uniq by (simp add: unique_hashes_def distinct_map)
  ultimately have "r0 = old" using r0 old by (auto dest: inj_onD)
  then show ?thesis using eq act by simp
qed

lemma rotate_SomeD:
  assumes "rotate H ttl now newRaw h store = Inr (out, store')"
  shows "\<exists>old. findActive now h store = Some old \<and> out = (newRaw, Suc (fold max (map record_id store) 0)) \<and>
     store' = revoke now (record_id old) store @
        [\<lparr>record_id = Suc (fold max (map record_id store) 0), user_id = user_id old, token_hash = H newRaw,
          expires_at = now + ttl, revoked_at = None, created_at = now\<rparr>]"
  using assms
  by (auto simp add: rotate_def persist_def Let_def record_id_revoke split: option.splits)

lemma rotate_NoneI: "findActive now h store = None \<Longrightarrow> rotate H ttl now newRaw h store = Inl Unauthorized"
  by (simp add: rotate_def)

lemma rotate_spends_old:
  assumes uniq: "unique_hashes store" and fresh: "H newRaw \<notin> set (map token_hash store)"
    and rot: "rotate H ttl now newRaw h store = Inr (out, store')"
  shows "spent h store'"
proof -
  from rotate_SomeD [OF rot] obtain old new where
    found: "findActive now h store = Some old" and
    new: "token_hash new = H newRaw" and
    st: "store' = revoke now (record_id old) store @ [new]"
    by fastforce
  from findActive_SomeD [OF found] have old: "old \<in> set store" "token_hash old = h" "revoked_at old = None"
    by (simp_all add: usable_def)
  have "h \<in> set (map token_hash store)" using old by force
  then have "token_hash new \<noteq> h" using fresh new by auto
  moreover have "revoked_at r = Some now"
    if "r \<in> set (revoke now (record_id old) store)" "token_hash r = h" for r
    using revoke_old_spent [OF uniq old(1) old(3) that(1)] that(2) old(2) by simp
  ultimately show ?thesis using st by (auto simp add: spent_def)
qed

lemma spent_refused: "spent h store \<Longrightarrow> findActive t h store = None"
  by (simp add: spent_def findActive_None_iff usable_def)

lemma spent_refresh_refused:
  "spent (H raw) store \<Longrightarrow> refresh sv H ttl now newRaw raw store = Inl Unauthorized"
  by (simp add: refresh_def rotate_def spent_refused)

lemma spent_persist:
  "spent h store \<Longrightarrow> tokenHash \<noteq> h \<Longrightarrow> spent h (snd (persist now userId tokenHash expiresAt store))"
  by (simp add: spent_def persist_def Let_def)

lemma spent_revoke: "spent h store \<Longrightarrow> spent h (revoke now i store)"
  by (auto simp add: spent_def revoke_def)

lemma spent_rotate:
  assumes "spent h store" "H newRaw \<noteq> h" "rotate H ttl now newRaw h' store = Inr (out, store')"
  shows "spent h store'"
  using assms
  by (auto simp add: rotate_def Let_def spent_persist spent_revoke split: option.splits)

lemma refresh_after_issue:
  assumes "sv raw" "now1 < now + ttl" "H raw \<notin> set (map token_hash store)"
  shows "\<exists>out store2.
     refresh sv H ttl' now1 newRaw raw (snd (issueRefreshToken H ttl now raw userId store)) = Inr (out, store2)"
proof -
  have "find (\<lambda>r. token_hash r = H raw \<and> usable now1 r) store = None"
    using assms(3) by (force simp add: find_None_iff)
  then have "findActive now1 (H raw) (snd (issueRefreshToken H ttl now raw userId store)) \<noteq> None"
    using assms(2) by (simp add: findActive_def issueRefreshToken_def persist_def Let_def find_append_None usable_def)
  then show ?thesis using assms(1)
    by (auto simp add: refresh_def rotate_def Let_def)
qed


lemma rotate_keeps_unique:
  assumes uniq: "unique_hashes store" and fresh: "H newRaw \<notin> set (map token_hash store)"
    and rot: "rotate H ttl now newRaw h store = Inr (out, store')"
  shows "unique_hashes store'"
  using rotate_SomeD [OF rot] uniq fresh
  by (auto simp add: unique_hashes_def token_hash_revoke)

text \<open>
  C1: when a refresh with a raw token succeeds on a table with unique hashes (the new
  token's hash not yet in it), the original is invalidated: every later refresh that
  presents the same raw token fails with Unauthorized, at any time and with any new
  token, because no lookup of its hash finds an active record any more. The rotation is
  one transition of the table: before it the new token has no active record, after it
  the old one has none, so no table holds both as active; after it the new record is
  active until its expiry, for the same user, and the hashes are still unique.
\<close>

theorem rotated_token_is_refused:
  assumes uniq: "unique_hashes store"
    and fresh: "H newRaw \<notin> set (map token_hash store)"
    and first: "refresh sv H ttl now newRaw raw store = Inr (out, store')"
  shows "refresh sv H ttl2 now2 newRaw2 raw store' = Inl Unauthorized \<and>
         findActive now2 (H raw) store' = None \<and>
         findActive now2 (H newRaw) store = None \<and>
         (\<exists>old. findActive now (H raw) store = Some old \<and>
                findActive now2 (H newRaw) store' =
                  (if now2 < now + ttl
                   then Some \<lparr>record_id = snd out, user_id = user_id old, token_hash = H newRaw,
                              expires_at = now + ttl, revoked_at = None, created_at = now\<rparr>
                   else None)) \<and>
         fst out = newRaw \<and> unique_hashes store' \<and> spent (H raw) store'"
proof -
  from first have sv: "sv raw" and rot: "rotate H ttl now newRaw (H raw) store = Inr (out, store')"
    by (auto simp add: refresh_def split: if_splits)
  let ?i = "Suc (fold max (map record_id store) 0)"
  from rotate_SomeD [OF rot] obtain old where
    found: "findActive now (H raw) store = Some old" and
    out: "out = (newRaw, ?i)" and
    st: "store' = revoke now (record_id old) store @
        [\<lparr>record_id = ?i, user_id = user_id old, token_hash = H newRaw,
          expires_at = now + ttl, revoked_at = None, created_at = now\<rparr>]"
    by blast
  have spent: "spent (H raw) store'"
    by (rule rotate_spends_old [OF uniq fresh rot])
  have gone: "findActive now2 (H raw) store' = None"
    by (rule spent_refused [OF spent])
  have again: "refresh sv H ttl2 now2 newRaw2 raw store' = Inl Unauthorized"
    using gone by (simp add: refresh_def rotate_def)
  have nf: "\<forall>r \<in> set store. token_hash r \<noteq> H newRaw"
    using fresh by force
  have before: "findActive now2 (H newRaw) store = None"
    using nf by (simp add: findActive_None_iff)
  have "\<forall>r \<in> set (revoke now (record_id old) store). token_hash r \<noteq> H newRaw"
    using fresh token_hash_revoke [of now "record_id old" store] by (metis image_eqI list.set_map)
  then have "find (\<lambda>r. token_hash r = H newRaw \<and> usable now2 r) (revoke now (record_id old) store) = None"
    by (auto simp add: find_None_iff)
  then have "find (\<lambda>r. token_hash r = H newRaw \<and> usable now2 r) store' =
      find (\<lambda>r. token_hash r = H newRaw \<and> usable now2 r)
        [\<lparr>record_id = ?i, user_id = user_id old, token_hash = H newRaw,
          expires_at = now + ttl, revoked_at = None, created_at = now\<rparr>]"
    unfolding st by (rule find_append_None)
  then have new: "findActive now2 (H newRaw) store' =
      (if now2 < now + ttl
       then Some \<lparr>record_id = snd out, user_id = user_id old, token_hash = H newRaw,
                  expires_at = now + ttl, revoked_at = None, created_at = now\<rparr>
       else None)"
    by (simp add: findActive_def out usable_def)
  show ?thesis
    using again gone before found new out spent rotate_keeps_unique [OF uniq fresh rot] by auto
qed

theorem rotated_token_is_refused_witness:
  "unique_hashes example_store \<and>
   example_hash ''raw-2'' \<notin> set (map token_hash example_store) \<and>
   refresh any_signature example_hash 2592000 1700003600 ''raw-2'' ''raw-1'' example_store =
     Inr ((''raw-2'', 2),
          [\<lparr>record_id = 1, user_id = ''user-1'', token_hash = ''sha256:raw-1'',
            expires_at = 1702592000, revoked_at = Some 1700003600, created_at = 1700000000\<rparr>,
           \<lparr>record_id = 2, user_id = ''user-1'', token_hash = ''sha256:raw-2'',
            expires_at = 1702595600, revoked_at = None, created_at = 1700003600\<rparr>]) \<and>
   refresh any_signature example_hash 2592000 1700007200 ''raw-3'' ''raw-1''
     [\<lparr>record_id = 1, user_id = ''user-1'', token_hash = ''sha256:raw-1'',
       expires_at = 1702592000, revoked_at = Some 1700003600, created_at = 1700000000\<rparr>,
      \<lparr>record_id = 2, user_id = ''user-1'', token_hash = ''sha256:raw-2'',
       expires_at = 1702595600, revoked_at = None, created_at = 1700003600\<rparr>] = Inl Unauthorized"
proof -
  have u: "unique_hashes example_store"
    by (simp add: unique_hashes_def example_store_def issueRefreshToken_def persist_def Let_def)
  have f: "example_hash ''raw-2'' \<notin> set (map token_hash example_store)"
    by (simp add: example_store_def issueRefreshToken_def persist_def Let_def example_hash_def)
  have r: "refresh any_signature example_hash 2592000 1700003600 ''raw-2'' ''raw-1'' example_store =
     Inr ((''raw-2'', 2),
          [\<lparr>record_id = 1, user_id = ''user-1'', token_hash = ''sha256:raw-1'',
            expires_at = 1702592000, revoked_at = Some 1700003600, created_at = 1700000000\<rparr>,
           \<lparr>record_id = 2, user_id = ''user-1'', token_hash = ''sha256:raw-2'',
            expires_at = 1702595600, revoked_at = None, created_at = 1700003600\<rparr>])"
    by (simp add: refresh_def rotate_def findActive_def usable_def revoke_def example_store_def
        issueRefreshToken_def persist_def Let_def example_hash_def any_signature_def)
  show ?thesis
    using u f r rotated_token_is_refused [OF u f r, of 2592000 1700007200 "''raw-3''"]
    by simp
qed


end
